theory Spec2Isabelle
  imports Complex_Main
begin

section \<open>Values exchanged with the outside\<close>

text \<open>
  The program is one Flask module, \<^verbatim>\<open>src/app.py\<close>: two fetch functions and three request
  handlers. Everything it calls beyond itself (the clock, the calendar formatting of the
  standard library, the market-data provider, the hedge analyser, the portfolio
  optimiser, Python's number formatting) is a field of the record \<open>services\<close> below, so
  that every theorem holds for whatever these collaborators answer.

  A Python exception is a value \<open>Exn msg\<close>, where \<open>msg\<close> is what \<^verbatim>\<open>str(e)\<close> gives; a call
  that may raise returns \<open>exn + 'a\<close>, with \<open>Inl\<close> for the raise.
\<close>

datatype exn = Exn string

text \<open>
  A float as numpy computes with it: rounding is not modelled (a finite value is an exact
  real), the special values are. Closing prices are finite.
\<close>

datatype npfloat = Fin real | PInf | NInf | NaN

text \<open>
  What \<^verbatim>\<open>jsonify\<close> serialises. A Python dict is an association list in insertion order,
  with one entry per key.
\<close>

datatype jval =
    JInt int
  | JNum npfloat
  | JStr string
  | JList "jval list"
  | JObj "(string \<times> jval) list"

record response =
  status :: nat
  body :: jval

text \<open>
  A naive \<^verbatim>\<open>datetime\<close>: the proleptic Gregorian ordinal of its day (1 is 0001-01-01, the
  least day Python represents) and the microseconds since midnight.
\<close>

record datetime =
  day_ord :: int
  day_time :: nat

type_synonym frame = "(datetime \<times> real) list"

type_synonym metrics =
  "npfloat list \<times> npfloat \<times> npfloat \<times> npfloat \<times> npfloat list \<times> npfloat list \<times> npfloat list"

record services =
  now :: datetime
  strptime :: "string \<Rightarrow> exn + datetime"
  strftime :: "datetime \<Rightarrow> string"
  history :: "string \<Rightarrow> string \<Rightarrow> string \<Rightarrow> exn + frame"
  info :: "string \<Rightarrow> exn + (string \<times> string) list"
  fmt_fixed :: "nat \<Rightarrow> npfloat \<Rightarrow> string"
  analyze_hedge_relationship ::
    "string \<Rightarrow> string \<Rightarrow> string option \<Rightarrow> string option \<Rightarrow> exn + jval"
  calculate_portfolio_metrics ::
    "string list \<Rightarrow> string option \<Rightarrow> string option \<Rightarrow> exn + metrics"
  prepare_portfolio_data ::
    "npfloat list \<Rightarrow> npfloat list \<Rightarrow> npfloat list \<Rightarrow> exn + jval"

text \<open>
  \<open>strptime\<close> and \<open>strftime\<close> stand for the format \<^verbatim>\<open>'%Y-%m-%d'\<close>, the only one the program
  uses; \<open>history sv ticker start end\<close> is \<^verbatim>\<open>yf.Ticker(ticker).history(start=, end=)\<close>, a
  frame of (index, Close) rows; \<open>info sv ticker\<close> is \<^verbatim>\<open>yf.Ticker(ticker).info\<close>;
  \<open>fmt_fixed k x\<close> is the format specification \<^verbatim>\<open>:.kf\<close>.
\<close>

section \<open>Python and numpy primitives\<close>

text \<open>The query string: \<^verbatim>\<open>request.args.get\<close> answers a key's first value.\<close>

type_synonym query = "(string \<times> string) list"

definition args_get :: "query \<Rightarrow> string \<Rightarrow> string option" where
  "args_get q k = map_of q k"

definition args_get_default :: "query \<Rightarrow> string \<Rightarrow> string \<Rightarrow> string" where
  "args_get_default q k d = (case map_of q k of None \<Rightarrow> d | Some v \<Rightarrow> v)"

text \<open>Truth value of an optional string: \<^verbatim>\<open>None\<close> and \<^verbatim>\<open>''\<close> are false.\<close>

definition truthy :: "string option \<Rightarrow> bool" where
  "truthy v = (case v of None \<Rightarrow> False | Some s \<Rightarrow> s \<noteq> [])"

text \<open>\<^verbatim>\<open>str.lower\<close> on the ASCII letters; other characters stay as they are.\<close>

definition lower_char :: "char \<Rightarrow> char" where
  "lower_char c =
     (case map_of (zip ''ABCDEFGHIJKLMNOPQRSTUVWXYZ'' ''abcdefghijklmnopqrstuvwxyz'') c of
        None \<Rightarrow> c
      | Some l \<Rightarrow> l)"

definition lower :: "string \<Rightarrow> string" where
  "lower s = map lower_char s"

text \<open>\<^verbatim>\<open>s.split(c)\<close>: the result is never empty, \<^verbatim>\<open>''.split(',')\<close> is \<^verbatim>\<open>['']\<close>.\<close>

fun split_on :: "char \<Rightarrow> string \<Rightarrow> string list" where
  "split_on c [] = [[]]"
| "split_on c (x # xs) =
     (if x = c then [] # split_on c xs
      else (case split_on c xs of [] \<Rightarrow> [[x]] | w # ws \<Rightarrow> (x # w) # ws))"

text \<open>Writing a key of a dict, and the dict a comprehension builds from its pairs.\<close>

fun dict_set :: "'k \<Rightarrow> 'v \<Rightarrow> ('k \<times> 'v) list \<Rightarrow> ('k \<times> 'v) list" where
  "dict_set k v [] = [(k, v)]"
| "dict_set k v (p # d) = (if fst p = k then (k, v) # d else p # dict_set k v d)"

definition dict_of :: "('k \<times> 'v) list \<Rightarrow> ('k \<times> 'v) list" where
  "dict_of kvs = foldl (\<lambda>d kv. dict_set (fst kv) (snd kv) d) [] kvs"

definition dict_get :: "('k \<times> 'v) list \<Rightarrow> 'k \<Rightarrow> 'v \<Rightarrow> 'v" where
  "dict_get d k dflt = (case map_of d k of None \<Rightarrow> dflt | Some v \<Rightarrow> v)"

text \<open>
  \<^verbatim>\<open>d - timedelta(days=k)\<close>: the time of day stays, and a day before 0001-01-01 is an
  OverflowError.
\<close>

definition minus_days :: "datetime \<Rightarrow> int \<Rightarrow> exn + datetime" where
  "minus_days d k =
     (if day_ord d - k < 1 then Inl (Exn ''date value out of range'')
      else Inr (d\<lparr>day_ord := day_ord d - k\<rparr>))"

text \<open>
  Division and subtraction of numpy floats on the operands the program gives them: a
  finite dividend and divisor, a finite minuend. Dividing by zero raises nothing: it
  yields \<open>NaN\<close> or an infinity (numpy only warns).
\<close>

definition np_div :: "real \<Rightarrow> real \<Rightarrow> npfloat" where
  "np_div a b =
     (if b \<noteq> 0 then Fin (a / b) else if a = 0 then NaN else if 0 < a then PInf else NInf)"

fun np_sub :: "real \<Rightarrow> npfloat \<Rightarrow> npfloat" where
  "np_sub a (Fin b) = Fin (a - b)"
| "np_sub a PInf = NInf"
| "np_sub a NInf = PInf"
| "np_sub a NaN = NaN"

text \<open>\<^verbatim>\<open>np.arange(n)\<close>, as one column of reals.\<close>

definition arange :: "nat \<Rightarrow> real list" where
  "arange n = map real [0..<n]"

section \<open>The scikit-learn estimators, on one feature\<close>

definition mean :: "real list \<Rightarrow> real" where
  "mean xs = sum_list xs / real (length xs)"

definition variance :: "real list \<Rightarrow> real" where
  "variance xs = mean (map (\<lambda>x. (x - mean xs)\<^sup>2) xs)"

text \<open>
  \<^verbatim>\<open>StandardScaler().fit_transform\<close>: centre on the mean, divide by the population standard
  deviation, a zero deviation being replaced by one.
\<close>

definition scaler_fit_transform :: "real list \<Rightarrow> real list" where
  "scaler_fit_transform xs =
     (let m = mean xs; s = sqrt (variance xs); scale = (if s = 0 then 1 else s)
      in map (\<lambda>x. (x - m) / scale) xs)"

record linreg =
  coef :: real
  intercept :: real

text \<open>
  \<^verbatim>\<open>LinearRegression().fit\<close> with an intercept: least squares on the centred data, the
  solution of least norm (a zero coefficient) when the feature is constant.
\<close>

definition sxx :: "real list \<Rightarrow> real" where
  "sxx xs = sum_list (map (\<lambda>x. (x - mean xs)\<^sup>2) xs)"

definition sxy :: "real list \<Rightarrow> real list \<Rightarrow> real" where
  "sxy xs ys = sum_list (map (\<lambda>p. (fst p - mean xs) * (snd p - mean ys)) (zip xs ys))"

definition linreg_fit :: "real list \<Rightarrow> real list \<Rightarrow> linreg" where
  "linreg_fit xs ys =
     (let c = (if sxx xs = 0 then 0 else sxy xs ys / sxx xs)
      in \<lparr>coef = c, intercept = mean ys - c * mean xs\<rparr>)"

definition linreg_predict :: "linreg \<Rightarrow> real list \<Rightarrow> real list" where
  "linreg_predict m xs = map (\<lambda>x. coef m * x + intercept m) xs"

text \<open>The sum of squared residuals of the line \<open>a * x + b\<close>, which least squares minimises.\<close>

definition sse :: "real list \<Rightarrow> real list \<Rightarrow> real \<Rightarrow> real \<Rightarrow> real" where
  "sse xs ys a b = sum_list (map (\<lambda>p. (snd p - (a * fst p + b))\<^sup>2) (zip xs ys))"

section \<open>The fetch functions\<close>

text \<open>
  Lines 28 to 33 and 105 to 110, the same text in both fetch functions: both dates when
  both are true, else the ninety days before yesterday.
\<close>

definition resolve_dates ::
  "services \<Rightarrow> string option \<Rightarrow> string option \<Rightarrow> exn + (datetime \<times> datetime)" where
  "resolve_dates sv start_date end_date =
     (case (start_date, end_date) of
        (Some s, Some e) \<Rightarrow>
          if s \<noteq> [] \<and> e \<noteq> [] then
            (case strptime sv s of
               Inl x \<Rightarrow> Inl x
             | Inr sd \<Rightarrow> (case strptime sv e of Inl x \<Rightarrow> Inl x | Inr ed \<Rightarrow> Inr (sd, ed)))
          else
            (case minus_days (now sv) 1 of
               Inl x \<Rightarrow> Inl x
             | Inr ed \<Rightarrow> (case minus_days ed 90 of Inl x \<Rightarrow> Inl x | Inr sd \<Rightarrow> Inr (sd, ed)))
      | _ \<Rightarrow>
          (case minus_days (now sv) 1 of
             Inl x \<Rightarrow> Inl x
           | Inr ed \<Rightarrow> (case minus_days ed 90 of Inl x \<Rightarrow> Inl x | Inr sd \<Rightarrow> Inr (sd, ed))))"

text \<open>Lines 71 to 77: the coefficients of the line over the unscaled day index.\<close>

definition mean_days :: "nat \<Rightarrow> real" where
  "mean_days n_days = (real n_days - 1) / 2"

definition std_days :: "nat \<Rightarrow> real" where
  "std_days n_days = sqrt ((real n_days - 1) * (real n_days + 1) / 12)"

definition unscaled_coefficients :: "linreg \<Rightarrow> nat \<Rightarrow> npfloat \<times> npfloat" where
  "unscaled_coefficients model n_days =
     (let actual_slope = np_div (coef model) (std_days n_days);
          actual_intercept =
            np_sub (intercept model) (np_div (coef model * mean_days n_days) (std_days n_days))
      in (actual_slope, actual_intercept))"

text \<open>Lines 46 to 89, a frame that is not empty.\<close>

definition regression_payload :: "services \<Rightarrow> string \<Rightarrow> frame \<Rightarrow> exn + jval" where
  "regression_payload sv ticker df =
     (let y = map snd df;
          X_scaled = scaler_fit_transform (arange (length df));
          model = linreg_fit X_scaled y;
          y_pred = linreg_predict model X_scaled;
          dates = map (\<lambda>r. strftime sv (fst r)) df;
          original_data = dict_of (zip dates (map (\<lambda>p. JNum (Fin p)) y));
          regression_data = dict_of (zip dates (map (\<lambda>p. JNum (Fin p)) y_pred))
      in case info sv ticker of
           Inl x \<Rightarrow> Inl x
         | Inr info_d \<Rightarrow>
             (let company_name = dict_get info_d ''longName'' ticker;
                  cs = unscaled_coefficients model (length df);
                  formula = ''price = '' @ fmt_fixed sv 4 (fst cs) @ '' * days + ''
                              @ fmt_fixed sv 2 (snd cs)
              in Inr (JObj [(''prices'', JObj original_data),
                            (''regression'', JObj regression_data),
                            (''companyName'', JStr company_name),
                            (''slope'', JNum (fst cs)),
                            (''intercept'', JNum (snd cs)),
                            (''formula'', JStr formula)])))"

text \<open>The body of the \<^verbatim>\<open>try\<close> of \<^verbatim>\<open>generate_regression_data\<close>, lines 27 to 89.\<close>

definition regression_try ::
  "services \<Rightarrow> string \<Rightarrow> string option \<Rightarrow> string option \<Rightarrow> exn + jval" where
  "regression_try sv ticker start_date end_date =
     (case resolve_dates sv start_date end_date of
        Inl x \<Rightarrow> Inl x
      | Inr w \<Rightarrow>
          (case history sv ticker (strftime sv (fst w)) (strftime sv (snd w)) of
             Inl x \<Rightarrow> Inl x
           | Inr df \<Rightarrow> if df = [] then Inr (JObj []) else regression_payload sv ticker df))"

text \<open>What the \<^verbatim>\<open>except\<close> of \<^verbatim>\<open>generate_regression_data\<close> returns, lines 93 to 100.\<close>

definition regression_default :: "string \<Rightarrow> jval" where
  "regression_default ticker =
     JObj [(''prices'', JObj []),
           (''regression'', JObj []),
           (''companyName'', JStr ticker),
           (''slope'', JInt 0),
           (''intercept'', JInt 0),
           (''formula'', JStr ''price = 0 * days + 0'')]"

definition generate_regression_data ::
  "services \<Rightarrow> string \<Rightarrow> string option \<Rightarrow> string option \<Rightarrow> jval" where
  "generate_regression_data sv ticker start_date end_date =
     (case regression_try sv ticker start_date end_date of
        Inl x \<Rightarrow> regression_default ticker
      | Inr v \<Rightarrow> v)"

text \<open>Lines 123 to 138, a frame that is not empty.\<close>

definition data_payload :: "services \<Rightarrow> string \<Rightarrow> frame \<Rightarrow> exn + jval" where
  "data_payload sv ticker df =
     (case info sv ticker of
        Inl x \<Rightarrow> Inl x
      | Inr info_d \<Rightarrow>
          (let company_name = dict_get info_d ''longName'' ticker;
               data = dict_of (map (\<lambda>r. (strftime sv (fst r), JNum (Fin (snd r)))) df)
           in Inr (JObj [(''prices'', JObj data), (''companyName'', JStr company_name)])))"

definition data_try ::
  "services \<Rightarrow> string \<Rightarrow> string option \<Rightarrow> string option \<Rightarrow> exn + jval" where
  "data_try sv ticker start_date end_date =
     (case resolve_dates sv start_date end_date of
        Inl x \<Rightarrow> Inl x
      | Inr w \<Rightarrow>
          (case history sv ticker (strftime sv (fst w)) (strftime sv (snd w)) of
             Inl x \<Rightarrow> Inl x
           | Inr df \<Rightarrow> if df = [] then Inr (JObj []) else data_payload sv ticker df))"

definition data_default :: "string \<Rightarrow> jval" where
  "data_default ticker = JObj [(''prices'', JObj []), (''companyName'', JStr ticker)]"

definition generate_data ::
  "services \<Rightarrow> string \<Rightarrow> string option \<Rightarrow> string option \<Rightarrow> jval" where
  "generate_data sv ticker start_date end_date =
     (case data_try sv ticker start_date end_date of
        Inl x \<Rightarrow> data_default ticker
      | Inr v \<Rightarrow> v)"

section \<open>The request handlers\<close>

text \<open>\<^verbatim>\<open>jsonify(data)\<close> alone is a response of status 200.\<close>

definition jsonify :: "jval \<Rightarrow> response" where
  "jsonify v = \<lparr>status = 200, body = v\<rparr>"

definition include_regression :: "query \<Rightarrow> bool" where
  "include_regression q = (lower (args_get_default q ''regression'' ''false'') = ''true'')"

definition get_data :: "services \<Rightarrow> query \<Rightarrow> response" where
  "get_data sv q =
     (let ticker = args_get_default q ''ticker'' ''AAPL'';
          start_date = args_get q ''start_date'';
          end_date = args_get q ''end_date''
      in if include_regression q
         then jsonify (generate_regression_data sv ticker start_date end_date)
         else jsonify (generate_data sv ticker start_date end_date))"

text \<open>
  \<^verbatim>\<open>analyze_hedge\<close> has no \<^verbatim>\<open>try\<close>: what the analyser raises leaves the handler (\<open>Inl\<close>).
\<close>

definition analyze_hedge :: "services \<Rightarrow> query \<Rightarrow> exn + response" where
  "analyze_hedge sv q =
     (case (args_get q ''ticker1'', args_get q ''ticker2'') of
        (Some ticker1, Some ticker2) \<Rightarrow>
          if ticker1 = [] \<or> ticker2 = [] then
            Inr \<lparr>status = 400, body = JObj [(''error'', JStr ''Both tickers are required'')]\<rparr>
          else
            (case analyze_hedge_relationship sv ticker1 ticker2
                    (args_get q ''start_date'') (args_get q ''end_date'') of
               Inl x \<Rightarrow> Inl x
             | Inr result \<Rightarrow> Inr (jsonify result))
      | _ \<Rightarrow>
          Inr \<lparr>status = 400, body = JObj [(''error'', JStr ''Both tickers are required'')]\<rparr>)"

text \<open>The body of the \<^verbatim>\<open>try\<close> of \<^verbatim>\<open>get_portfolio_metrics\<close>, lines 187 to 198.\<close>

definition portfolio_try ::
  "services \<Rightarrow> string list \<Rightarrow> string option \<Rightarrow> string option \<Rightarrow> exn + response" where
  "portfolio_try sv tickers start_date end_date =
     (case calculate_portfolio_metrics sv tickers start_date end_date of
        Inl x \<Rightarrow> Inl x
      | Inr (final_weights, final_ret, final_vol, final_sharpe, opts, optv, rets) \<Rightarrow>
          (case prepare_portfolio_data sv opts optv rets of
             Inl x \<Rightarrow> Inl x
           | Inr portfolio_data \<Rightarrow>
               Inr (jsonify (JObj [(''final_weights'', JList (map JNum final_weights)),
                                   (''final_return'', JNum final_ret),
                                   (''final_volatility'', JNum final_vol),
                                   (''final_sharpe_ratio'', JNum final_sharpe),
                                   (''data'', portfolio_data)]))))"

text \<open>Line 182: \<^verbatim>\<open>not tickers or tickers[0] == ''\<close>.\<close>

definition no_ticker :: "string list \<Rightarrow> bool" where
  "no_ticker tickers = (case tickers of [] \<Rightarrow> True | t # ts \<Rightarrow> t = [])"

text \<open>Lines 185 to 200: the \<^verbatim>\<open>try\<close> and its \<^verbatim>\<open>except\<close>.\<close>

definition portfolio_response ::
  "services \<Rightarrow> string list \<Rightarrow> string option \<Rightarrow> string option \<Rightarrow> response" where
  "portfolio_response sv tickers start_date end_date =
     (case portfolio_try sv tickers start_date end_date of
        Inl (Exn msg) \<Rightarrow> \<lparr>status = 500, body = JObj [(''error'', JStr msg)]\<rparr>
      | Inr r \<Rightarrow> r)"

definition get_portfolio_metrics :: "services \<Rightarrow> query \<Rightarrow> response" where
  "get_portfolio_metrics sv q =
     (let tickers = split_on CHR '','' (args_get_default q ''tickers'' '''');
          start_date = args_get q ''start_date'';
          end_date = args_get q ''end_date''
      in if no_ticker tickers then
           \<lparr>status = 400, body = JObj [(''error'', JStr ''At least one ticker is required'')]\<rparr>
         else portfolio_response sv tickers start_date end_date)"

section \<open>A services instance for the examples\<close>

text \<open>
  A clock that reads 2024-04-01, a calendar that knows five days, a provider that answers
  every request with the same frame or the same exception, an optimiser that needs two
  tickers for a frontier and has no data for the empty ticker.
\<close>

definition test_calendar :: "(string \<times> int) list" where
  "test_calendar =
     [(''2024-01-02'', 738887), (''2024-01-03'', 738888), (''2024-01-04'', 738889),
      (''2024-01-01'', 738886), (''2024-03-31'', 738976)]"

definition test_strptime :: "string \<Rightarrow> exn + datetime" where
  "test_strptime s =
     (case map_of test_calendar s of
        None \<Rightarrow> Inl (Exn ''time data does not match format'')
      | Some n \<Rightarrow> Inr \<lparr>day_ord = n, day_time = 0\<rparr>)"

definition test_strftime :: "datetime \<Rightarrow> string" where
  "test_strftime d =
     (case map_of (map (\<lambda>p. (snd p, fst p)) test_calendar) (day_ord d) of
        None \<Rightarrow> ''0000-00-00''
      | Some s \<Rightarrow> s)"

definition test_fmt :: "nat \<Rightarrow> npfloat \<Rightarrow> string" where
  "test_fmt k x = (case x of Fin r \<Rightarrow> ''#'' | PInf \<Rightarrow> ''inf'' | NInf \<Rightarrow> ''-inf'' | NaN \<Rightarrow> ''nan'')"

definition test_services :: "(exn + frame) \<Rightarrow> services" where
  "test_services h =
     \<lparr>now = \<lparr>day_ord = 738977, day_time = 34200\<rparr>,
      strptime = test_strptime,
      strftime = test_strftime,
      history = (\<lambda>ticker s e. h),
      info = (\<lambda>ticker. Inr [(''longName'', ''Acme Corporation'')]),
      fmt_fixed = test_fmt,
      analyze_hedge_relationship = (\<lambda>t1 t2 s e. Inr (JObj [(''hedge_ratio'', JNum (Fin 1))])),
      calculate_portfolio_metrics =
        (\<lambda>ts s e. if [] \<in> set ts then Inl (Exn ''No data found'')
                  else Inr (map (\<lambda>t. Fin 1) ts, Fin 1, Fin 1, Fin 1, [], [],
                            map (\<lambda>t. Fin 0) (tl ts))),
      prepare_portfolio_data =
        (\<lambda>opts optv rets. if rets = [] then Inl (Exn ''empty frontier'')
                           else Inr (JList (map JNum rets)))\<rparr>"

section \<open>The portfolio endpoint's validation\<close>


lemma no_ticker_split: "no_ticker (split_on c s) = (s = [] \<or> take 1 s = [c])"
  by (cases s) (auto simp: no_ticker_def split: list.splits)








section \<open>The portfolio endpoint's error policy\<close>

text \<open>
  C4. A \<^verbatim>\<open>/portfolio-metrics\<close> request that passes the ticker validation answers 500 with
  the exception's message as error body when \<^verbatim>\<open>calculate_portfolio_metrics\<close> or
  \<^verbatim>\<open>prepare_portfolio_data\<close> raises, and otherwise 200 with the keys \<^verbatim>\<open>final_weights\<close>,
  \<^verbatim>\<open>final_return\<close>, \<^verbatim>\<open>final_volatility\<close>, \<^verbatim>\<open>final_sharpe_ratio\<close> and \<^verbatim>\<open>data\<close>.
\<close>

theorem portfolio_error_policy:
  assumes "\<not> no_ticker (split_on CHR '','' (args_get_default q ''tickers'' ''''))"
  shows
  "(calculate_portfolio_metrics sv (split_on CHR '','' (args_get_default q ''tickers'' ''''))
       (args_get q ''start_date'') (args_get q ''end_date'') = Inl (Exn msg) \<longrightarrow>
      get_portfolio_metrics sv q = \<lparr>status = 500, body = JObj [(''error'', JStr msg)]\<rparr>)
   \<and> (calculate_portfolio_metrics sv (split_on CHR '','' (args_get_default q ''tickers'' ''''))
         (args_get q ''start_date'') (args_get q ''end_date'')
           = Inr (final_weights, final_ret, final_vol, final_sharpe, opts, optv, rets) \<and>
        prepare_portfolio_data sv opts optv rets = Inl (Exn msg) \<longrightarrow>
      get_portfolio_metrics sv q = \<lparr>status = 500, body = JObj [(''error'', JStr msg)]\<rparr>)
   \<and> (calculate_portfolio_metrics sv (split_on CHR '','' (args_get_default q ''tickers'' ''''))
         (args_get q ''start_date'') (args_get q ''end_date'')
           = Inr (final_weights, final_ret, final_vol, final_sharpe, opts, optv, rets) \<and>
        prepare_portfolio_data sv opts optv rets = Inr portfolio_data \<longrightarrow>
      get_portfolio_metrics sv q =
        \<lparr>status = 200,
         body = JObj [(''final_weights'', JList (map JNum final_weights)),
                      (''final_return'', JNum final_ret),
                      (''final_volatility'', JNum final_vol),
                      (''final_sharpe_ratio'', JNum final_sharpe),
                      (''data'', portfolio_data)]\<rparr>)"
  using assms
  by (simp add: get_portfolio_metrics_def portfolio_response_def portfolio_try_def jsonify_def)

theorem portfolio_error_policy_witness:
  "get_portfolio_metrics (test_services (Inr [])) [(''tickers'', ''AAPL,'')]
     = \<lparr>status = 500, body = JObj [(''error'', JStr ''No data found'')]\<rparr>
   \<and> get_portfolio_metrics (test_services (Inr [])) [(''tickers'', ''AAPL'')]
     = \<lparr>status = 500, body = JObj [(''error'', JStr ''empty frontier'')]\<rparr>
   \<and> get_portfolio_metrics (test_services (Inr [])) [(''tickers'', ''AAPL,MSFT'')]
     = \<lparr>status = 200,
        body = JObj [(''final_weights'', JList [JNum (Fin 1), JNum (Fin 1)]),
                     (''final_return'', JNum (Fin 1)),
                     (''final_volatility'', JNum (Fin 1)),
                     (''final_sharpe_ratio'', JNum (Fin 1)),
                     (''data'', JList [JNum (Fin 0)])]\<rparr>"
  using portfolio_error_policy [where q = "[(''tickers'', ''AAPL,'')]" and sv = "test_services (Inr [])"
           and msg = "''No data found''"]
        portfolio_error_policy [where q = "[(''tickers'', ''AAPL'')]" and sv = "test_services (Inr [])"
           and final_weights = "[Fin 1]" and final_ret = "Fin 1" and final_vol = "Fin 1"
           and final_sharpe = "Fin 1" and opts = "[]" and optv = "[]" and rets = "[]"
           and msg = "''empty frontier''"]
        portfolio_error_policy [where q = "[(''tickers'', ''AAPL,MSFT'')]" and sv = "test_services (Inr [])"
           and final_weights = "[Fin 1, Fin 1]" and final_ret = "Fin 1" and final_vol = "Fin 1"
           and final_sharpe = "Fin 1" and opts = "[]" and optv = "[]" and rets = "[Fin 0]"
           and portfolio_data = "JList [JNum (Fin 0)]"]
  by (simp add: args_get_def args_get_default_def no_ticker_def test_services_def)

section \<open>The dispatch of the data endpoint\<close>

lemma lower_char_eq_iff:
  "(lower_char a = CHR ''t'') = (a = CHR ''t'' \<or> a = CHR ''T'')"
  "(lower_char a = CHR ''r'') = (a = CHR ''r'' \<or> a = CHR ''R'')"
  "(lower_char a = CHR ''u'') = (a = CHR ''u'' \<or> a = CHR ''U'')"
  "(lower_char a = CHR ''e'') = (a = CHR ''e'' \<or> a = CHR ''E'')"
  by (simp_all add: lower_char_def)

lemma lower_true_iff:
  "(lower s = ''true'') =
     (\<exists>a b c d. s = [a, b, c, d] \<and> (a = CHR ''t'' \<or> a = CHR ''T'') \<and> (b = CHR ''r'' \<or> b = CHR ''R'')
        \<and> (c = CHR ''u'' \<or> c = CHR ''U'') \<and> (d = CHR ''e'' \<or> d = CHR ''E''))"
proof -
  have "(lower s = ''true'') =
          (\<exists>a b c d. s = [a, b, c, d] \<and> lower_char a = CHR ''t'' \<and> lower_char b = CHR ''r''
             \<and> lower_char c = CHR ''u'' \<and> lower_char d = CHR ''e'')"
    unfolding lower_def by (simp add: map_eq_Cons_conv) blast
  then show ?thesis
    by (simp only: lower_char_eq_iff)
qed

lemma lower_examples:
  "lower ''TRUE'' = ''true''" "lower ''True'' = ''true''" "lower ''1'' \<noteq> ''true''"
  "lower ''yes'' \<noteq> ''true''" "lower ''false'' \<noteq> ''true''"
  by (simp_all add: lower_def lower_char_def)

text \<open>
  C10. \<^verbatim>\<open>/get-data\<close> takes the regression path exactly when the \<^verbatim>\<open>regression\<close> parameter,
  lowercased, is \<^verbatim>\<open>"true"\<close>; an absent parameter counts as \<^verbatim>\<open>"false"\<close>, so that absence,
  \<^verbatim>\<open>"1"\<close> and \<^verbatim>\<open>"yes"\<close> take the plain path; an absent \<^verbatim>\<open>ticker\<close> is \<^verbatim>\<open>"AAPL"\<close>.
\<close>

theorem get_data_dispatch:
  "get_data sv q =
     (if lower (case args_get q ''regression'' of None \<Rightarrow> ''false'' | Some v \<Rightarrow> v) = ''true''
      then jsonify (generate_regression_data sv
                      (case args_get q ''ticker'' of None \<Rightarrow> ''AAPL'' | Some t \<Rightarrow> t)
                      (args_get q ''start_date'') (args_get q ''end_date''))
      else jsonify (generate_data sv
                      (case args_get q ''ticker'' of None \<Rightarrow> ''AAPL'' | Some t \<Rightarrow> t)
                      (args_get q ''start_date'') (args_get q ''end_date'')))
   \<and> (args_get q ''regression'' \<in> {None, Some ''1'', Some ''yes'', Some ''false''} \<longrightarrow>
        get_data sv q =
          jsonify (generate_data sv
                      (case args_get q ''ticker'' of None \<Rightarrow> ''AAPL'' | Some t \<Rightarrow> t)
                      (args_get q ''start_date'') (args_get q ''end_date'')))"
  by (auto simp: get_data_def include_regression_def args_get_def args_get_default_def
        lower_def lower_char_def)

theorem get_data_dispatch_witness:
  "get_data (test_services (Inl (Exn ''timeout''))) [(''regression'', ''True'')]
     = \<lparr>status = 200, body = regression_default ''AAPL''\<rparr>
   \<and> get_data (test_services (Inl (Exn ''timeout''))) [(''regression'', ''yes''), (''ticker'', ''XYZ'')]
     = \<lparr>status = 200, body = data_default ''XYZ''\<rparr>
   \<and> get_data (test_services (Inl (Exn ''timeout''))) []
     = \<lparr>status = 200, body = data_default ''AAPL''\<rparr>"
  using get_data_dispatch [of "test_services (Inl (Exn ''timeout''))" "[(''regression'', ''True'')]"]
        get_data_dispatch [of "test_services (Inl (Exn ''timeout''))" "[(''regression'', ''yes''), (''ticker'', ''XYZ'')]"]
        get_data_dispatch [of "test_services (Inl (Exn ''timeout''))" "[]"]
  by (simp add: args_get_def lower_def lower_char_def jsonify_def
        generate_regression_data_def regression_try_def generate_data_def data_try_def
        resolve_dates_def minus_days_def test_services_def)

section \<open>The hedge endpoint\<close>

text \<open>
  C7. \<^verbatim>\<open>/analyze-hedge\<close> answers 400 with \<^verbatim>\<open>{error: "Both tickers are required"}\<close> when
  \<^verbatim>\<open>ticker1\<close> or \<^verbatim>\<open>ticker2\<close> is missing or empty; with both present it answers what the
  analyser returns, unchanged.
\<close>

theorem analyze_hedge_requires_both:
  "(\<not> truthy (args_get q ''ticker1'') \<or> \<not> truthy (args_get q ''ticker2'') \<longrightarrow>
      analyze_hedge sv q =
        Inr \<lparr>status = 400, body = JObj [(''error'', JStr ''Both tickers are required'')]\<rparr>)
   \<and> (args_get q ''ticker1'' = Some t1 \<and> t1 \<noteq> [] \<and> args_get q ''ticker2'' = Some t2 \<and> t2 \<noteq> [] \<and>
        analyze_hedge_relationship sv t1 t2 (args_get q ''start_date'') (args_get q ''end_date'')
          = Inr result \<longrightarrow>
        analyze_hedge sv q = Inr \<lparr>status = 200, body = result\<rparr>)"
  by (auto simp: analyze_hedge_def truthy_def jsonify_def split: option.splits)

theorem analyze_hedge_requires_both_witness:
  "analyze_hedge (test_services (Inr [])) [(''ticker1'', ''AAPL'')]
     = Inr \<lparr>status = 400, body = JObj [(''error'', JStr ''Both tickers are required'')]\<rparr>
   \<and> analyze_hedge (test_services (Inr [])) [(''ticker1'', ''AAPL''), (''ticker2'', '''')]
     = Inr \<lparr>status = 400, body = JObj [(''error'', JStr ''Both tickers are required'')]\<rparr>
   \<and> analyze_hedge (test_services (Inr [])) [(''ticker1'', ''AAPL''), (''ticker2'', ''MSFT'')]
     = Inr \<lparr>status = 200, body = JObj [(''hedge_ratio'', JNum (Fin 1))]\<rparr>"
  using analyze_hedge_requires_both [where q = "[(''ticker1'', ''AAPL'')]" and sv = "test_services (Inr [])"]
        analyze_hedge_requires_both [of "[(''ticker1'', ''AAPL''), (''ticker2'', '''')]" "test_services (Inr [])"]
        analyze_hedge_requires_both [where q = "[(''ticker1'', ''AAPL''), (''ticker2'', ''MSFT'')]"
          and ?t1.0 = "''AAPL''" and ?t2.0 = "''MSFT''" and sv = "test_services (Inr [])"
          and result = "JObj [(''hedge_ratio'', JNum (Fin 1))]"]
  by (simp add: args_get_def truthy_def test_services_def)

lemma analyze_hedge_propagates:
  "args_get q ''ticker1'' = Some t1 \<Longrightarrow> t1 \<noteq> [] \<Longrightarrow> args_get q ''ticker2'' = Some t2 \<Longrightarrow> t2 \<noteq> [] \<Longrightarrow>
   analyze_hedge_relationship sv t1 t2 (args_get q ''start_date'') (args_get q ''end_date'') = Inl x \<Longrightarrow>
   analyze_hedge sv q = Inl x"
  by (simp add: analyze_hedge_def)

section \<open>The date window\<close>

lemma minus_days_ok: "k < day_ord d \<Longrightarrow> minus_days d k = Inr (d\<lparr>day_ord := day_ord d - k\<rparr>)"
  by (simp add: minus_days_def)

lemma default_window:
  assumes "91 < day_ord (now sv)"
  shows "(case minus_days (now sv) 1 of
             Inl x \<Rightarrow> Inl x
           | Inr ed \<Rightarrow> (case minus_days ed 90 of Inl x \<Rightarrow> Inl x | Inr sd \<Rightarrow> Inr (sd, ed)))
         = Inr ((now sv)\<lparr>day_ord := day_ord (now sv) - 91\<rparr>, (now sv)\<lparr>day_ord := day_ord (now sv) - 1\<rparr>)"
  using assms by (simp add: minus_days_def)

text \<open>
  C5. When the two dates are not both supplied, the window ends the day before the
  clock's day and starts ninety days before its end (the clock reading a day later than
  0001-04-01, as every real clock does); two dates that \<^verbatim>\<open>strptime\<close> accepts are the
  window as they are.
\<close>

theorem resolve_dates_window:
  "(\<not> (truthy start_date \<and> truthy end_date) \<and> 91 < day_ord (now sv) \<longrightarrow>
      resolve_dates sv start_date end_date =
        Inr ((now sv)\<lparr>day_ord := day_ord (now sv) - 91\<rparr>, (now sv)\<lparr>day_ord := day_ord (now sv) - 1\<rparr>))
   \<and> (start_date = Some s \<and> s \<noteq> [] \<and> end_date = Some e \<and> e \<noteq> [] \<and>
        strptime sv s = Inr sd \<and> strptime sv e = Inr ed \<longrightarrow>
      resolve_dates sv start_date end_date = Inr (sd, ed))"
proof (intro conjI impI)
  assume a: "\<not> (truthy start_date \<and> truthy end_date) \<and> 91 < day_ord (now sv)"
  then have w: "91 < day_ord (now sv)" by simp
  from a show "resolve_dates sv start_date end_date =
        Inr ((now sv)\<lparr>day_ord := day_ord (now sv) - 91\<rparr>, (now sv)\<lparr>day_ord := day_ord (now sv) - 1\<rparr>)"
    unfolding resolve_dates_def
    by (auto simp: truthy_def default_window [OF w] split: option.splits)
next
  assume "start_date = Some s \<and> s \<noteq> [] \<and> end_date = Some e \<and> e \<noteq> [] \<and>
        strptime sv s = Inr sd \<and> strptime sv e = Inr ed"
  then show "resolve_dates sv start_date end_date = Inr (sd, ed)"
    by (simp add: resolve_dates_def)
qed

theorem resolve_dates_window_witness:
  "resolve_dates (test_services (Inr [])) None None
     = Inr (\<lparr>day_ord = 738886, day_time = 34200\<rparr>, \<lparr>day_ord = 738976, day_time = 34200\<rparr>)
   \<and> resolve_dates (test_services (Inr [])) (Some ''2024-01-02'') None
     = Inr (\<lparr>day_ord = 738886, day_time = 34200\<rparr>, \<lparr>day_ord = 738976, day_time = 34200\<rparr>)
   \<and> resolve_dates (test_services (Inr [])) (Some ''2024-01-02'') (Some ''2024-01-04'')
     = Inr (\<lparr>day_ord = 738887, day_time = 0\<rparr>, \<lparr>day_ord = 738889, day_time = 0\<rparr>)"
  using resolve_dates_window [where sv = "test_services (Inr [])" and start_date = None and end_date = None]
        resolve_dates_window [where sv = "test_services (Inr [])" and start_date = "Some ''2024-01-02''"
          and end_date = None]
        resolve_dates_window [where sv = "test_services (Inr [])" and start_date = "Some ''2024-01-02''"
          and end_date = "Some ''2024-01-04''" and s = "''2024-01-02''" and e = "''2024-01-04''"
          and sd = "\<lparr>day_ord = 738887, day_time = 0\<rparr>" and ed = "\<lparr>day_ord = 738889, day_time = 0\<rparr>"]
  by (simp add: truthy_def test_services_def test_strptime_def test_calendar_def)

lemma window_reaches_provider:
  "resolve_dates sv start_date end_date = Inr (sd, ed) \<Longrightarrow>
   history sv ticker (strftime sv sd) (strftime sv ed) = Inl x \<Longrightarrow>
   data_try sv ticker start_date end_date = Inl x \<and> regression_try sv ticker start_date end_date = Inl x"
  by (simp add: data_try_def regression_try_def)

section \<open>Empty results and exceptions of the fetch\<close>

text \<open>
  C2, as the code has it. When the provider answers with no row, \<^verbatim>\<open>/get-data\<close> answers
  200 with the empty object \<^verbatim>\<open>{}\<close>, with regression enabled and with regression disabled:
  line 44 and line 121 both \<^verbatim>\<open>return {}\<close>.
\<close>

theorem empty_result_body:
  assumes "resolve_dates sv (args_get q ''start_date'') (args_get q ''end_date'') = Inr w"
    and "history sv (args_get_default q ''ticker'' ''AAPL'') (strftime sv (fst w)) (strftime sv (snd w))
           = Inr []"
  shows "get_data sv q = \<lparr>status = 200, body = JObj []\<rparr>"
  using assms
  by (simp add: get_data_def Let_def generate_regression_data_def regression_try_def
        generate_data_def data_try_def jsonify_def)

theorem empty_result_body_witness:
  "get_data (test_services (Inr [])) [(''ticker'', ''XYZ''), (''regression'', ''true'')]
     = \<lparr>status = 200, body = JObj []\<rparr>
   \<and> get_data (test_services (Inr [])) [(''ticker'', ''XYZ'')] = \<lparr>status = 200, body = JObj []\<rparr>"
proof -
  have r: "resolve_dates (test_services (Inr [])) None None
     = Inr (\<lparr>day_ord = 738886, day_time = 34200\<rparr>, \<lparr>day_ord = 738976, day_time = 34200\<rparr>)"
    by (simp add: resolve_dates_def minus_days_def test_services_def)
  have h: "history (test_services (Inr [])) t a b = Inr []" for t a b
    by (simp add: test_services_def)
  show ?thesis
    using empty_result_body [where sv = "test_services (Inr [])"
            and q = "[(''ticker'', ''XYZ''), (''regression'', ''true'')]"
            and w = "(\<lparr>day_ord = 738886, day_time = 34200\<rparr>, \<lparr>day_ord = 738976, day_time = 34200\<rparr>)"]
          empty_result_body [where sv = "test_services (Inr [])"
            and q = "[(''ticker'', ''XYZ'')]"
            and w = "(\<lparr>day_ord = 738886, day_time = 34200\<rparr>, \<lparr>day_ord = 738976, day_time = 34200\<rparr>)"]
          r h
    by (simp add: args_get_def)
qed

text \<open>
  The claim as written fails on a provider without rows: the body is neither default
  shape.
\<close>

theorem empty_result_body_counterexample:
  "get_data (test_services (Inr [])) [(''ticker'', ''XYZ''), (''regression'', ''true'')]
     \<noteq> \<lparr>status = 200, body = regression_default ''XYZ''\<rparr>
   \<and> get_data (test_services (Inr [])) [(''ticker'', ''XYZ'')]
     \<noteq> \<lparr>status = 200, body = data_default ''XYZ''\<rparr>"
  by (simp add: get_data_def include_regression_def args_get_def args_get_default_def lower_def
        lower_char_def jsonify_def generate_regression_data_def regression_try_def
        generate_data_def data_try_def resolve_dates_def minus_days_def test_services_def
        regression_default_def data_default_def)

text \<open>
  The two default shapes come from the \<^verbatim>\<open>except\<close> branches alone: a fetch function that
  returns its default shape has raised in its \<^verbatim>\<open>try\<close>.
\<close>

lemma dict_set_nonempty: "dict_set k v d \<noteq> []"
  by (cases d) simp_all

lemma foldl_dict_set_nonempty:
  "d \<noteq> [] \<Longrightarrow> foldl (\<lambda>d kv. dict_set (fst kv) (snd kv) d) d kvs \<noteq> []"
  by (induction kvs arbitrary: d) (simp_all add: dict_set_nonempty)

lemma dict_of_nonempty: "kvs \<noteq> [] \<Longrightarrow> dict_of kvs \<noteq> []"
  by (cases kvs) (simp_all add: dict_of_def foldl_dict_set_nonempty)

lemma regression_default_only_on_raise:
  "generate_regression_data sv ticker start_date end_date = regression_default ticker \<Longrightarrow>
   \<exists>x. regression_try sv ticker start_date end_date = Inl x"
  by (auto simp: generate_regression_data_def regression_try_def regression_payload_def
        regression_default_def Let_def split: sum.splits if_splits)

lemma data_default_only_on_raise:
  "generate_data sv ticker start_date end_date = data_default ticker \<Longrightarrow>
   \<exists>x. data_try sv ticker start_date end_date = Inl x"
  by (auto simp: generate_data_def data_try_def data_payload_def data_default_def Let_def
        dict_of_nonempty split: sum.splits if_splits)

lemma fetch_raises:
  "resolve_dates sv start_date end_date = Inl x \<Longrightarrow>
     regression_try sv ticker start_date end_date = Inl x \<and> data_try sv ticker start_date end_date = Inl x"
  "resolve_dates sv start_date end_date = Inr w \<Longrightarrow>
   history sv ticker (strftime sv (fst w)) (strftime sv (snd w)) = Inl x \<Longrightarrow>
     regression_try sv ticker start_date end_date = Inl x \<and> data_try sv ticker start_date end_date = Inl x"
  "resolve_dates sv start_date end_date = Inr w \<Longrightarrow>
   history sv ticker (strftime sv (fst w)) (strftime sv (snd w)) = Inr df \<Longrightarrow> df \<noteq> [] \<Longrightarrow>
   info sv ticker = Inl x \<Longrightarrow>
     regression_try sv ticker start_date end_date = Inl x \<and> data_try sv ticker start_date end_date = Inl x"
  by (simp_all add: regression_try_def data_try_def regression_payload_def data_payload_def Let_def)

text \<open>
  C3, as the code has it. When the body of the \<^verbatim>\<open>try\<close> raises, \<^verbatim>\<open>generate_regression_data\<close>
  returns the six default fields and \<^verbatim>\<open>generate_data\<close> returns empty \<^verbatim>\<open>prices\<close> with the
  ticker as \<^verbatim>\<open>companyName\<close>; on an empty provider result both return \<^verbatim>\<open>{}\<close>, which is a
  different value.
\<close>

theorem exception_default_shape:
  "(regression_try sv ticker start_date end_date = Inl x \<longrightarrow>
      generate_regression_data sv ticker start_date end_date =
        JObj [(''prices'', JObj []), (''regression'', JObj []), (''companyName'', JStr ticker),
              (''slope'', JInt 0), (''intercept'', JInt 0),
              (''formula'', JStr ''price = 0 * days + 0'')])
   \<and> (data_try sv ticker start_date end_date = Inl x' \<longrightarrow>
      generate_data sv ticker start_date end_date =
        JObj [(''prices'', JObj []), (''companyName'', JStr ticker)])
   \<and> (resolve_dates sv start_date end_date = Inr w \<and>
      history sv ticker (strftime sv (fst w)) (strftime sv (snd w)) = Inr [] \<longrightarrow>
      generate_regression_data sv ticker start_date end_date = JObj [] \<and>
      generate_data sv ticker start_date end_date = JObj [])"
  by (simp add: generate_regression_data_def regression_default_def regression_try_def
        generate_data_def data_default_def data_try_def)

theorem exception_default_shape_witness:
  "generate_regression_data (test_services (Inl (Exn ''timeout''))) ''XYZ'' None None
     = JObj [(''prices'', JObj []), (''regression'', JObj []), (''companyName'', JStr ''XYZ''),
              (''slope'', JInt 0), (''intercept'', JInt 0),
              (''formula'', JStr ''price = 0 * days + 0'')]
   \<and> generate_data (test_services (Inl (Exn ''timeout''))) ''XYZ'' None None
     = JObj [(''prices'', JObj []), (''companyName'', JStr ''XYZ'')]
   \<and> generate_regression_data (test_services (Inr [])) ''XYZ'' None None = JObj []
   \<and> generate_data (test_services (Inr [])) ''XYZ'' None None = JObj []"
proof -
  have r: "resolve_dates (test_services h) None None
     = Inr (\<lparr>day_ord = 738886, day_time = 34200\<rparr>, \<lparr>day_ord = 738976, day_time = 34200\<rparr>)" for h
    by (simp add: resolve_dates_def minus_days_def test_services_def)
  have h: "history (test_services h) t a b = h" for h t a b
    by (simp add: test_services_def)
  have t: "regression_try (test_services (Inl (Exn ''timeout''))) ''XYZ'' None None = Inl (Exn ''timeout'')"
    "data_try (test_services (Inl (Exn ''timeout''))) ''XYZ'' None None = Inl (Exn ''timeout'')"
    by (simp_all add: regression_try_def data_try_def r h)
  show ?thesis
    using exception_default_shape [where sv = "test_services (Inl (Exn ''timeout''))"
            and ticker = "''XYZ''" and start_date = None and end_date = None
            and x = "Exn ''timeout''" and x' = "Exn ''timeout''"]
          exception_default_shape [where sv = "test_services (Inr [])"
            and ticker = "''XYZ''" and start_date = None and end_date = None
            and w = "(\<lparr>day_ord = 738886, day_time = 34200\<rparr>, \<lparr>day_ord = 738976, day_time = 34200\<rparr>)"]
          r h t
    by simp
qed

text \<open>
  The claim as written fails when the provider raises: neither function returns what it
  returns on an empty result.
\<close>

theorem exception_default_shape_counterexample:
  "generate_regression_data (test_services (Inl (Exn ''timeout''))) ''XYZ'' None None
     \<noteq> generate_regression_data (test_services (Inr [])) ''XYZ'' None None
   \<and> generate_data (test_services (Inl (Exn ''timeout''))) ''XYZ'' None None
     \<noteq> generate_data (test_services (Inr [])) ''XYZ'' None None"
  by (simp add: generate_regression_data_def regression_try_def generate_data_def data_try_def
        resolve_dates_def minus_days_def test_services_def regression_default_def data_default_def)

section \<open>The trend fit\<close>

text \<open>
  The model of \<^verbatim>\<open>LinearRegression\<close> is least squares: no line has a smaller sum of squared
  residuals than the fitted one.
\<close>

lemma sse_split:
  fixes A a b xm ym :: real
  shows "sum_list (map (\<lambda>p. (snd p - (a * fst p + b))\<^sup>2) zs)
       = sum_list (map (\<lambda>p. (snd p - (A * fst p + (ym - A * xm)))\<^sup>2) zs)
         + sum_list (map (\<lambda>p. ((A - a) * fst p + (ym - A * xm - b))\<^sup>2) zs)
         + 2 * (A - a) * (sum_list (map (\<lambda>p. (fst p - xm) * (snd p - ym)) zs)
                            - A * sum_list (map (\<lambda>p. (fst p - xm)\<^sup>2) zs))
         + 2 * ((A - a) * xm + (ym - A * xm - b))
             * (sum_list (map (\<lambda>p. snd p - ym) zs) - A * sum_list (map (\<lambda>p. fst p - xm) zs))"
  by (induction zs) (simp_all add: algebra_simps power2_eq_square)

lemma sum_list_centred: "xs \<noteq> [] \<Longrightarrow> sum_list (map (\<lambda>x. x - mean xs) xs) = 0"
  by (simp add: sum_list_subtractf sum_list_triv mean_def)

lemma sum_list_all_zero: "(\<And>p. p \<in> set zs \<Longrightarrow> f p = (0::real)) \<Longrightarrow> sum_list (map f zs) = 0"
  by (induction zs) simp_all

lemma sxx_zero_sxy: 
  assumes "sxx xs = 0"
  shows "sxy xs ys = 0"
proof -
  have "\<forall>v \<in> set (map (\<lambda>x. (x - mean xs)\<^sup>2) xs). v = 0"
    using assms unfolding sxx_def
    by (subst (asm) sum_list_nonneg_eq_0_iff) auto
  then have "x - mean xs = 0" if "x \<in> set xs" for x
    using that by auto
  then have "(fst p - mean xs) * (snd p - mean ys) = 0" if "p \<in> set (zip xs ys)" for p
    using that by (cases p) (auto dest: set_zip_leftD)
  then show ?thesis
    unfolding sxy_def by (rule sum_list_all_zero)
qed

lemma normal_equation: "sxy xs ys - coef (linreg_fit xs ys) * sxx xs = 0"
  by (simp add: linreg_fit_def sxx_zero_sxy)

lemma linreg_fit_least_squares:
  assumes "length xs = length ys"
  shows "sse xs ys (coef (linreg_fit xs ys)) (intercept (linreg_fit xs ys)) \<le> sse xs ys a b"
proof (cases "xs = []")
  case True
  then show ?thesis by (simp add: sse_def)
next
  case False
  let ?A = "coef (linreg_fit xs ys)"
  let ?zs = "zip xs ys"
  have ys: "ys \<noteq> []" using False assms by auto
  have fs: "map fst ?zs = xs" and sn: "map snd ?zs = ys"
    using assms by simp_all
  have i: "intercept (linreg_fit xs ys) = mean ys - ?A * mean xs"
    by (simp add: linreg_fit_def Let_def)
  have cx: "sum_list (map (\<lambda>p. fst p - mean xs) ?zs) = 0"
    using sum_list_centred [OF False] fs by (metis (no_types, lifting) map_map comp_def map_eq_conv)
  have cy: "sum_list (map (\<lambda>p. snd p - mean ys) ?zs) = 0"
    using sum_list_centred [OF ys] sn by (metis (no_types, lifting) map_map comp_def map_eq_conv)
  have xx: "sum_list (map (\<lambda>p. (fst p - mean xs)\<^sup>2) ?zs) = sxx xs"
    unfolding sxx_def using fs by (metis (no_types, lifting) map_map comp_def map_eq_conv)
  have ne: "sum_list (map (\<lambda>p. (fst p - mean xs) * (snd p - mean ys)) ?zs) - ?A * sxx xs = 0"
    using normal_equation [of xs ys] by (simp add: sxy_def)
  have "sse xs ys a b
          = sse xs ys ?A (mean ys - ?A * mean xs)
            + sum_list (map (\<lambda>p. ((?A - a) * fst p + (mean ys - ?A * mean xs - b))\<^sup>2) ?zs)"
    unfolding sse_def
    by (subst sse_split [where A = ?A and xm = "mean xs" and ym = "mean ys"])
       (simp only: cx cy xx ne, simp)
  moreover have "0 \<le> sum_list (map (\<lambda>p. ((?A - a) * fst p + (mean ys - ?A * mean xs - b))\<^sup>2) ?zs)"
    by (rule sum_list_nonneg) auto
  ultimately show ?thesis
    by (simp add: i)
qed

text \<open>
  The day index \<open>0, \<dots>, n - 1\<close> has mean \<open>(n - 1) / 2\<close> and population variance
  \<open>(n - 1) (n + 1) / 12\<close>: the two constants of lines 72 and 73.
\<close>

lemma sum_list_arange: "sum_list (arange n) = real n * (real n - 1) / 2"
  by (induction n) (simp_all add: arange_def field_simps)

lemma sum_list_arange_sq:
  "sum_list (map (\<lambda>x. x\<^sup>2) (arange n)) = (real n - 1) * real n * (2 * real n - 1) / 6"
  by (induction n) (simp_all add: arange_def field_simps power2_eq_square)

lemma length_arange: "length (arange n) = n"
  by (simp add: arange_def)

lemma mean_arange: "0 < n \<Longrightarrow> mean (arange n) = mean_days n"
  by (simp add: mean_def mean_days_def sum_list_arange length_arange)

lemma sum_list_shifted_sq:
  "sum_list (map (\<lambda>x. (x - c)\<^sup>2) xs)
     = sum_list (map (\<lambda>x. x\<^sup>2) xs) - 2 * c * sum_list xs + real (length xs) * c\<^sup>2"
  by (induction xs) (simp_all add: algebra_simps power2_eq_square)

lemma sxx_arange:
  assumes "0 < n"
  shows "sxx (arange n) = real n * ((real n - 1) * (real n + 1) / 12)"
proof -
  have "sxx (arange n) =
          (real n - 1) * real n * (2 * real n - 1) / 6
            - 2 * ((real n - 1) / 2) * (real n * (real n - 1) / 2)
            + real n * ((real n - 1) / 2)\<^sup>2"
    using assms
    by (simp only: sxx_def sum_list_shifted_sq mean_arange mean_days_def sum_list_arange
          sum_list_arange_sq length_arange)
  also have "\<dots> = real n * ((real n - 1) * (real n + 1) / 12)"
    by (simp add: field_simps power2_eq_square)
  finally show ?thesis .
qed

lemma variance_sxx: "variance xs = sxx xs / real (length xs)"
  by (simp add: variance_def sxx_def mean_def)

lemma variance_arange: "0 < n \<Longrightarrow> variance (arange n) = (real n - 1) * (real n + 1) / 12"
  by (simp add: variance_sxx sxx_arange length_arange)

lemma std_days_arange: "0 < n \<Longrightarrow> sqrt (variance (arange n)) = std_days n"
  by (simp add: variance_arange std_days_def)

lemma std_days_pos: "2 \<le> n \<Longrightarrow> 0 < std_days n"
  by (simp add: std_days_def)

lemma sum_list_standardised:
  "sum_list (map (\<lambda>x. (x - m) / s) xs) = (sum_list xs - real (length xs) * m) / (s::real)"
  by (induction xs) (simp_all add: add_divide_distrib diff_divide_distrib algebra_simps)

lemma sum_list_standardised_sq:
  "sum_list (map (\<lambda>x. ((x - m) / s)\<^sup>2) xs) = sum_list (map (\<lambda>x. (x - m)\<^sup>2) xs) / (s::real)\<^sup>2"
  by (induction xs) (simp_all add: power_divide add_divide_distrib)

lemma sum_list_standardised_xy:
  "sum_list (map (\<lambda>p. (fst p - m) / s * (snd p - k)) zs)
     = sum_list (map (\<lambda>p. (fst p - m) * (snd p - k)) zs) / (s::real)"
  by (induction zs) (simp_all add: add_divide_distrib)

lemma scaler_fit_transform_pos:
  "0 < sqrt (variance xs) \<Longrightarrow>
   scaler_fit_transform xs = map (\<lambda>x. (x - mean xs) / sqrt (variance xs)) xs"
  by (simp add: scaler_fit_transform_def Let_def)

lemma mean_standardised:
  assumes "xs \<noteq> []"
  shows "mean (map (\<lambda>x. (x - mean xs) / s) xs) = 0"
  using assms by (simp add: mean_def [of "map f xs" for f] sum_list_standardised) (simp add: mean_def)

lemma sxx_standardised:
  assumes "xs \<noteq> []" and "0 < variance xs"
  shows "sxx (map (\<lambda>x. (x - mean xs) / sqrt (variance xs)) xs) = real (length xs)"
proof -
  have "sxx (map (\<lambda>x. (x - mean xs) / sqrt (variance xs)) xs)
          = sum_list (map (\<lambda>x. ((x - mean xs) / sqrt (variance xs))\<^sup>2) xs)"
    using assms(1) by (simp add: sxx_def mean_standardised comp_def)
  also have "\<dots> = sxx xs / (sqrt (variance xs))\<^sup>2"
    by (simp only: sum_list_standardised_sq sxx_def)
  also have "\<dots> = sxx xs / variance xs"
    using assms(2) by simp
  also have "\<dots> = real (length xs)"
  proof -
    have "variance xs \<noteq> 0" using assms(2) by simp
    then have "sxx xs \<noteq> 0" by (auto simp: variance_sxx)
    then show ?thesis using assms(1) by (simp add: variance_sxx)
  qed
  finally show ?thesis .
qed

lemma sxy_standardised:
  assumes "xs \<noteq> []"
  shows "sxy (map (\<lambda>x. (x - mean xs) / s) xs) ys = sxy xs ys / s"
proof -
  have "sxy (map (\<lambda>x. (x - mean xs) / s) xs) ys
          = sum_list (map (\<lambda>p. (fst p - mean xs) / s * (snd p - mean ys)) (zip xs ys))"
    using assms by (simp add: sxy_def mean_standardised zip_map1 comp_def case_prod_beta)
  then show ?thesis
    by (simp only: sum_list_standardised_xy sxy_def)
qed

lemma std_days_sq: "0 < n \<Longrightarrow> std_days n * std_days n = (real n - 1) * (real n + 1) / 12"
  by (simp add: std_days_def)

text \<open>
  C1. For a series of at least two prices, the slope and intercept that lines 76 and 77
  compute from the fit over the standardised day index are the slope and intercept of the
  least-squares fit of the prices against the day index \<open>0, \<dots>, n - 1\<close> (in exact
  arithmetic: the rounding of floats is not modelled).
\<close>

theorem unscaled_is_ols:
  assumes "2 \<le> length y"
  shows "unscaled_coefficients (linreg_fit (scaler_fit_transform (arange (length y))) y) (length y)
           = (Fin (coef (linreg_fit (arange (length y)) y)),
              Fin (intercept (linreg_fit (arange (length y)) y)))"
proof -
  let ?n = "length y"
  let ?xs = "arange ?n"
  let ?s = "std_days ?n"
  have n: "0 < ?n" and ne: "?xs \<noteq> []"
    using assms by (auto simp: arange_def)
  have s: "0 < ?s"
    using assms by (rule std_days_pos)
  have sv: "sqrt (variance ?xs) = ?s" and m: "mean ?xs = mean_days ?n"
    using n by (simp_all add: std_days_arange mean_arange)
  have vs: "variance ?xs = ?s * ?s"
    using n by (simp only: variance_arange std_days_sq)
  have v: "0 < variance ?xs"
    using s by (simp add: vs)
  have z: "scaler_fit_transform ?xs = map (\<lambda>x. (x - mean ?xs) / ?s) ?xs"
    using s scaler_fit_transform_pos [of ?xs] by (simp only: sv)
  have xx: "sxx ?xs = real ?n * (?s * ?s)"
    using n by (simp only: sxx_arange std_days_sq)
  have zxx: "sxx (map (\<lambda>x. (x - mean ?xs) / ?s) ?xs) = real ?n"
    using sxx_standardised [OF ne v] by (simp only: sv length_arange)
  have zxy: "sxy (map (\<lambda>x. (x - mean ?xs) / ?s) ?xs) y = sxy ?xs y / ?s"
    by (rule sxy_standardised [OF ne])
  have zm: "mean (map (\<lambda>x. (x - mean ?xs) / ?s) ?xs) = 0"
    by (rule mean_standardised [OF ne])
  have scaled: "linreg_fit (scaler_fit_transform ?xs) y
                  = \<lparr>coef = sxy ?xs y / ?s / real ?n, intercept = mean y\<rparr>"
    unfolding linreg_fit_def z zxx zxy zm using n by simp
  have plain: "linreg_fit ?xs y
                 = \<lparr>coef = sxy ?xs y / (real ?n * (?s * ?s)),
                    intercept = mean y - sxy ?xs y / (real ?n * (?s * ?s)) * mean_days ?n\<rparr>"
    unfolding linreg_fit_def xx m using n s by simp
  have c: "sxy ?xs y / ?s / real ?n / ?s = sxy ?xs y / (real ?n * (?s * ?s))"
    by simp
  have i: "sxy ?xs y / ?s / real ?n * mean_days ?n / ?s
             = sxy ?xs y / (real ?n * (?s * ?s)) * mean_days ?n"
    by simp
  show ?thesis
    unfolding scaled plain unscaled_coefficients_def using s by (simp add: np_div_def c i)
qed

theorem unscaled_is_ols_witness:
  "2 \<le> length [1, 3, 2 :: real]
   \<and> unscaled_coefficients
        (linreg_fit (scaler_fit_transform (arange (length [1, 3, 2 :: real]))) [1, 3, 2])
        (length [1, 3, 2 :: real])
       = (Fin (coef (linreg_fit (arange (length [1, 3, 2 :: real])) [1, 3, 2])),
          Fin (intercept (linreg_fit (arange (length [1, 3, 2 :: real])) [1, 3, 2])))"
  using unscaled_is_ols [of "[1, 3, 2]"] by simp

lemma regression_payload_coefficients:
  assumes "2 \<le> length df" and "info sv ticker = Inr info_d"
  shows "\<exists>prices regression formula.
           regression_payload sv ticker df =
             Inr (JObj [(''prices'', prices), (''regression'', regression),
                        (''companyName'', JStr (dict_get info_d ''longName'' ticker)),
                        (''slope'', JNum (fst (unscaled_coefficients
                            (linreg_fit (scaler_fit_transform (arange (length (map snd df)))) (map snd df))
                            (length (map snd df))))),
                        (''intercept'', JNum (snd (unscaled_coefficients
                            (linreg_fit (scaler_fit_transform (arange (length (map snd df)))) (map snd df))
                            (length (map snd df))))),
                        (''formula'', formula)])"
  using assms by (simp add: regression_payload_def Let_def)

section \<open>A single observation\<close>

lemma std_days_one: "std_days (Suc 0) = 0"
  by (simp add: std_days_def)

lemma one_row_scaled: "scaler_fit_transform (arange (Suc 0)) = [0]"
  by (simp add: scaler_fit_transform_def arange_def mean_def variance_def)

lemma one_row_fit: "linreg_fit [0] [p] = \<lparr>coef = 0, intercept = p\<rparr>"
  by (simp add: linreg_fit_def sxx_def sxy_def mean_def)

lemma one_row_coefficients: "unscaled_coefficients \<lparr>coef = 0, intercept = p\<rparr> (Suc 0) = (NaN, NaN)"
  by (simp add: unscaled_coefficients_def np_div_def std_days_def)

lemma one_row_payload:
  "info sv ticker = Inr info_d \<Longrightarrow>
   regression_payload sv ticker [(d, p)] =
     Inr (JObj [(''prices'', JObj [(strftime sv d, JNum (Fin p))]),
                (''regression'', JObj [(strftime sv d, JNum (Fin p))]),
                (''companyName'', JStr (dict_get info_d ''longName'' ticker)),
                (''slope'', JNum NaN),
                (''intercept'', JNum NaN),
                (''formula'', JStr (''price = '' @ fmt_fixed sv 4 NaN @ '' * days + ''
                                      @ fmt_fixed sv 2 NaN))])"
  by (simp add: regression_payload_def one_row_scaled one_row_fit one_row_coefficients
        linreg_predict_def dict_of_def)

text \<open>
  C8, as the code has it. With one observation \<open>std_days\<close> is zero and the fitted
  coefficient is zero; numpy's division of zero by zero raises nothing and yields
  \<open>NaN\<close>, so that the function returns its usual payload with slope and intercept
  \<open>NaN\<close>. One observation is not guarded; no observation never reaches the regression,
  the check of the empty frame returning \<^verbatim>\<open>{}\<close> before it.
\<close>

theorem single_observation:
  "std_days 1 = 0
   \<and> unscaled_coefficients (linreg_fit (scaler_fit_transform (arange 1)) [p]) 1 = (NaN, NaN)
   \<and> (resolve_dates sv start_date end_date = Inr w \<and>
      history sv ticker (strftime sv (fst w)) (strftime sv (snd w)) = Inr [(d, p)] \<and>
      info sv ticker = Inr info_d \<longrightarrow>
      regression_try sv ticker start_date end_date =
        Inr (JObj [(''prices'', JObj [(strftime sv d, JNum (Fin p))]),
                   (''regression'', JObj [(strftime sv d, JNum (Fin p))]),
                   (''companyName'', JStr (dict_get info_d ''longName'' ticker)),
                   (''slope'', JNum NaN),
                   (''intercept'', JNum NaN),
                   (''formula'', JStr (''price = '' @ fmt_fixed sv 4 NaN @ '' * days + ''
                                         @ fmt_fixed sv 2 NaN))]))
   \<and> (resolve_dates sv start_date end_date = Inr w \<and>
      history sv ticker (strftime sv (fst w)) (strftime sv (snd w)) = Inr [] \<longrightarrow>
      regression_try sv ticker start_date end_date = Inr (JObj []))"
  by (simp add: std_days_one one_row_scaled one_row_fit one_row_coefficients one_row_payload
        regression_try_def)

theorem single_observation_witness:
  "regression_try (test_services (Inr [(\<lparr>day_ord = 738887, day_time = 0\<rparr>, 10)])) ''XYZ'' None None
     = Inr (JObj [(''prices'', JObj [(''2024-01-02'', JNum (Fin 10))]),
                  (''regression'', JObj [(''2024-01-02'', JNum (Fin 10))]),
                  (''companyName'', JStr ''Acme Corporation''),
                  (''slope'', JNum NaN),
                  (''intercept'', JNum NaN),
                  (''formula'', JStr ''price = nan * days + nan'')])
   \<and> regression_try (test_services (Inr [])) ''XYZ'' None None = Inr (JObj [])"
proof -
  have r: "resolve_dates (test_services h) None None
     = Inr (\<lparr>day_ord = 738886, day_time = 34200\<rparr>, \<lparr>day_ord = 738976, day_time = 34200\<rparr>)" for h
    by (simp add: resolve_dates_def minus_days_def test_services_def)
  have h: "history (test_services h) t a b = h" for h t a b
    by (simp add: test_services_def)
  have i: "info (test_services h) t = Inr [(''longName'', ''Acme Corporation'')]" for h t
    by (simp add: test_services_def)
  have f: "strftime (test_services h) \<lparr>day_ord = 738887, day_time = 0\<rparr> = ''2024-01-02''"
    "fmt_fixed (test_services h) k NaN = ''nan''" for h k
    by (simp_all add: test_services_def test_strftime_def test_calendar_def test_fmt_def)
  show ?thesis
    using single_observation [where sv = "test_services (Inr [(\<lparr>day_ord = 738887, day_time = 0\<rparr>, 10)])"
            and ticker = "''XYZ''" and start_date = None and end_date = None
            and w = "(\<lparr>day_ord = 738886, day_time = 34200\<rparr>, \<lparr>day_ord = 738976, day_time = 34200\<rparr>)"
            and d = "\<lparr>day_ord = 738887, day_time = 0\<rparr>" and p = 10
            and info_d = "[(''longName'', ''Acme Corporation'')]"]
          single_observation [where sv = "test_services (Inr [])"
            and ticker = "''XYZ''" and start_date = None and end_date = None
            and w = "(\<lparr>day_ord = 738886, day_time = 34200\<rparr>, \<lparr>day_ord = 738976, day_time = 34200\<rparr>)"]
    by (simp add: r h i f dict_get_def)
qed

text \<open>
  The claim as written fails on a frame of one row: no exception reaches the \<^verbatim>\<open>except\<close>
  branch, whose default payload is not what is returned.
\<close>

theorem single_observation_counterexample:
  "generate_regression_data (test_services (Inr [(\<lparr>day_ord = 738887, day_time = 0\<rparr>, 10)]))
       ''XYZ'' None None
     = JObj [(''prices'', JObj [(''2024-01-02'', JNum (Fin 10))]),
             (''regression'', JObj [(''2024-01-02'', JNum (Fin 10))]),
             (''companyName'', JStr ''Acme Corporation''),
             (''slope'', JNum NaN),
             (''intercept'', JNum NaN),
             (''formula'', JStr ''price = nan * days + nan'')]
   \<and> generate_regression_data (test_services (Inr [(\<lparr>day_ord = 738887, day_time = 0\<rparr>, 10)]))
       ''XYZ'' None None
     \<noteq> regression_default ''XYZ''"
proof -
  have r: "resolve_dates (test_services h) None None
     = Inr (\<lparr>day_ord = 738886, day_time = 34200\<rparr>, \<lparr>day_ord = 738976, day_time = 34200\<rparr>)" for h
    by (simp add: resolve_dates_def minus_days_def test_services_def)
  have h: "history (test_services h) t a b = h" for h t a b
    by (simp add: test_services_def)
  have i: "info (test_services h) t = Inr [(''longName'', ''Acme Corporation'')]" for h t
    by (simp add: test_services_def)
  have f: "strftime (test_services h) \<lparr>day_ord = 738887, day_time = 0\<rparr> = ''2024-01-02''"
    "fmt_fixed (test_services h) k NaN = ''nan''" for h k
    by (simp_all add: test_services_def test_strftime_def test_calendar_def test_fmt_def)
  show ?thesis
    by (simp add: generate_regression_data_def regression_try_def r h one_row_payload [OF i] f
          dict_get_def regression_default_def)
qed

end
